theory Spec2Isabelle
  imports Main "HOL-Library.Char_ord" "HOL-Library.List_Lexorder" "HOL-Library.Word"
    "HOL-Library.AList"
begin

text \<open>
  A model of the SMS verification library of \<open>verify-phone\<close>: the phone normaliser and
  validator, the two VoIP classifiers, the AWS Signature Version 4 signer, the SNS
  transport with its response extractor, and the orchestrator \<open>verifyPhone\<close>, from
  \<open>src/verify-phone.ts\<close> and \<open>src/sns.js\<close>.

  Conventions: \<open>None\<close> is \<open>undefined\<close>; a \<open>throw\<close> is the left injection of a sum (or
  \<open>Throws\<close>), so that every \<open>try\<close>/\<open>catch\<close> of the source is a case distinction of the
  model; what the code takes from its platform (Web Crypto, the clock, \<open>fetch\<close>,
  \<open>libphonenumber-js\<close>, the global \<open>process\<close>) is a parameter; the requests a call
  makes are recorded as a list of events.
\<close>

section \<open>JavaScript strings\<close>

text \<open>
  A JavaScript string is modelled as a \<^typ>\<open>string\<close>: a list of code units, each below 256.
  \<open>s.length\<close> is \<^const>\<open>length\<close>, string comparison (the default order of
  \<open>Array.prototype.sort\<close>) is the lexicographic order on code units.
\<close>

definition isDigit :: "char \<Rightarrow> bool" where
  \<comment> \<open>the regular expression class \<open>\d\<close>\<close>
  "isDigit c = (48 \<le> (of_char c :: nat) \<and> (of_char c :: nat) \<le> 57)"

definition isAlnum :: "char \<Rightarrow> bool" where
  \<comment> \<open>the regular expression class \<open>[a-zA-Z0-9]\<close>\<close>
  "isAlnum c = (let n = (of_char c :: nat) in
     (97 \<le> n \<and> n \<le> 122) \<or> (65 \<le> n \<and> n \<le> 90) \<or> (48 \<le> n \<and> n \<le> 57))"

definition startsWith :: "string \<Rightarrow> string \<Rightarrow> bool" where
  "startsWith s p = (take (length p) s = p)"

definition endsWith :: "string \<Rightarrow> string \<Rightarrow> bool" where
  "endsWith s p = (length p \<le> length s \<and> drop (length s - length p) s = p)"

fun str_includes :: "string \<Rightarrow> string \<Rightarrow> bool" where
  "str_includes [] p = (p = [])"
| "str_includes (c # cs) p = (startsWith (c # cs) p \<or> str_includes cs p)"

fun join :: "string \<Rightarrow> string list \<Rightarrow> string" where
  "join sep [] = []"
| "join sep [x] = x"
| "join sep (x # y # ys) = x @ sep @ join sep (y # ys)"

definition lowerChar :: "char \<Rightarrow> char" where
  \<comment> \<open>\<open>A\<close>..\<open>Z\<close> and the upper-case letters of Latin-1 (\<open>0xC0\<close>..\<open>0xDE\<close> without \<open>0xD7\<close>)\<close>
  "lowerChar c = (let n = (of_char c :: nat) in
     if (65 \<le> n \<and> n \<le> 90) \<or> (192 \<le> n \<and> n \<le> 222 \<and> n \<noteq> 215)
     then char_of (n + 32) else c)"

definition toLowerCase :: "string \<Rightarrow> string" where
  "toLowerCase s = map lowerChar s"

section \<open>Phone normaliser and validator (basic strategy)\<close>

datatype js_error = JsError (errName: string) (errMessage: string)

definition typeErrorReplace :: js_error where
  \<comment> \<open>\<open>phone.replace\<close> on \<open>undefined\<close>; the wording of the message is the engine's\<close>
  "typeErrorReplace =
     JsError ''TypeError'' ''Cannot read properties of undefined (reading replace)''"

definition formatPhoneNumber :: "string \<Rightarrow> string" where
  "formatPhoneNumber phone =
     (let cleaned = filter isDigit phone in
      if length cleaned = 10 then ''+1'' @ cleaned
      else if length cleaned = 11 \<and> startsWith cleaned ''1'' then ''+'' @ cleaned
      else if startsWith phone ''+'' then phone else ''+'' @ cleaned)"

definition e164Regex :: "string \<Rightarrow> bool" where
  \<comment> \<open>\<open>/^\+[1-9]\d{1,14}$/\<close>\<close>
  "e164Regex phone = (case phone of
       p # d # ds \<Rightarrow> p = CHR ''+'' \<and> isDigit d \<and> d \<noteq> CHR ''0''
                    \<and> 1 \<le> length ds \<and> length ds \<le> 14 \<and> list_all isDigit ds
     | _ \<Rightarrow> False)"

definition isValidPhoneNumberBasic :: "string \<Rightarrow> bool" where
  \<comment> \<open>\<open>isValidPhoneNumber\<close> below its optional first block\<close>
  "isValidPhoneNumberBasic phone =
     (e164Regex phone \<and> 7 \<le> length phone \<and> length phone \<le> 16)"

section \<open>Response extractor\<close>

text \<open>
  Both extractors search the reply with regular expressions of the shape
  \<open>/<Tag>([^<]+)<\/Tag>/\<close>. \<open>matchTagHere\<close> tries the expression at the start of the
  text: after the opening tag the group takes the longest run of characters other than
  \<open><\<close>, which must be non-empty and followed by the closing tag (a shorter run would be
  followed by a character of the run, never by \<open><\<close>). \<open>matchTag\<close> is the leftmost match.
\<close>

definition matchTagHere :: "string \<Rightarrow> string \<Rightarrow> string \<Rightarrow> string option" where
  "matchTagHere otag ctag s =
     (if startsWith s otag then
        (let rest = drop (length otag) s;
             grp = takeWhile (\<lambda>c. c \<noteq> CHR ''<'') rest
         in if grp \<noteq> [] \<and> startsWith (drop (length grp) rest) ctag then Some grp else None)
      else None)"

fun matchTag :: "string \<Rightarrow> string \<Rightarrow> string \<Rightarrow> string option" where
  "matchTag otag ctag [] = matchTagHere otag ctag []"
| "matchTag otag ctag (c # cs) =
     (case matchTagHere otag ctag (c # cs) of
        Some grp \<Rightarrow> Some grp
      | None \<Rightarrow> matchTag otag ctag cs)"

datatype sns_response =
    MessageIdResp string
  | TopicArnResp string
  | SubscriptionArnResp string
  | RawResp string

fun responseMessageId :: "sns_response \<Rightarrow> string option" where
  \<comment> \<open>\<open>response.MessageId\<close>; \<open>None\<close> is \<open>undefined\<close>\<close>
  "responseMessageId (MessageIdResp m) = Some m"
| "responseMessageId _ = None"

definition parseXMLResponse :: "string \<Rightarrow> js_error + sns_response" where
  \<comment> \<open>\<open>SNSClient.parseXMLResponse\<close> of \<open>verify-phone.ts\<close>\<close>
  "parseXMLResponse xmlText =
     (let messageIdMatch = matchTag ''<MessageId>'' ''</MessageId>'' xmlText;
          errorCodeMatch = matchTag ''<Code>'' ''</Code>'' xmlText;
          errorMessageMatch = matchTag ''<Message>'' ''</Message>'' xmlText
      in case (errorCodeMatch, errorMessageMatch) of
           (Some c, Some m) \<Rightarrow> Inl (JsError ''Error'' (c @ '': '' @ m))
         | _ \<Rightarrow> (case messageIdMatch of
                    Some i \<Rightarrow> Inr (MessageIdResp i)
                  | None \<Rightarrow> Inr (RawResp xmlText)))"

definition parseXMLResponse_sns :: "string \<Rightarrow> js_error + sns_response" where
  \<comment> \<open>\<open>SNSClient.parseXMLResponse\<close> of \<open>sns.js\<close>: it has no \<open>throw\<close>\<close>
  "parseXMLResponse_sns xmlText =
     (let messageIdMatch = matchTag ''<MessageId>'' ''</MessageId>'' xmlText;
          topicArnMatch = matchTag ''<TopicArn>'' ''</TopicArn>'' xmlText;
          subscriptionArnMatch = matchTag ''<SubscriptionArn>'' ''</SubscriptionArn>'' xmlText
      in case messageIdMatch of
           Some i \<Rightarrow> Inr (MessageIdResp i)
         | None \<Rightarrow> (case topicArnMatch of
                      Some t \<Rightarrow> Inr (TopicArnResp t)
                    | None \<Rightarrow> (case subscriptionArnMatch of
                                 Some a \<Rightarrow> Inr (SubscriptionArnResp a)
                               | None \<Rightarrow> Inr (RawResp xmlText))))"

section \<open>Canonical request builder and signing key chain\<close>

text \<open>
  The Web Crypto primitives are parameters of the model: \<open>sha256\<close> is
  \<open>crypto.subtle.digest('SHA-256', _)\<close>, and \<open>hmacSha256 key data\<close> is
  \<open>importKey('raw', key, HMAC/SHA-256)\<close> followed by \<open>sign('HMAC', key, data)\<close>.
  The clock enters as the text that \<open>new Date().toISOString()\<close> returns.
  \<open>SNSClient.sign\<close> reads the same in \<open>verify-phone.ts\<close> and in \<open>sns.js\<close> (where
  \<open>substr(0, 8)\<close> stands for \<open>slice(0, 8)\<close>); one model serves both.
\<close>

type_synonym byte = "8 word"

record crypto =
  sha256 :: "byte list \<Rightarrow> byte list"
  hmacSha256 :: "byte list \<Rightarrow> byte list \<Rightarrow> byte list"

text \<open>
  A header object is an association list with distinct keys in insertion order;
  \<open>headers[k] = v\<close> is \<^const>\<open>AList.update\<close> (an existing key keeps its place, a new one is
  appended), \<open>Object.keys\<close> is \<open>map fst\<close>.
\<close>

type_synonym headers = "(string \<times> string) list"

definition templ :: "string option \<Rightarrow> string" where
  \<comment> \<open>a value inside a template literal: \<open>undefined\<close> is rendered as the word\<close>
  "templ v = (case v of None \<Rightarrow> ''undefined'' | Some s \<Rightarrow> s)"

definition getHeader :: "headers \<Rightarrow> string \<Rightarrow> string" where
  "getHeader h k = templ (map_of h k)"

definition nl :: string where
  "nl = [CHR 0x0A]"

definition utf8Char :: "char \<Rightarrow> byte list" where
  "utf8Char c = (let n = (of_char c :: nat) in
     if n < 128 then [of_nat n] else [of_nat (192 + n div 64), of_nat (128 + n mod 64)])"

definition stringToUint8Array :: "string \<Rightarrow> byte list" where
  \<comment> \<open>\<open>new TextEncoder().encode(str)\<close>: UTF-8\<close>
  "stringToUint8Array str = concat (map utf8Char str)"

definition hexDigit :: "nat \<Rightarrow> char" where
  "hexDigit n = (if n < 10 then char_of (48 + n) else char_of (87 + n))"

definition arrayBufferToHex :: "byte list \<Rightarrow> string" where
  \<comment> \<open>\<open>b.toString(16).padStart(2, '0')\<close> for each byte, joined\<close>
  "arrayBufferToHex buffer =
     concat (map (\<lambda>b. [hexDigit (unat b div 16), hexDigit (unat b mod 16)]) buffer)"

fun stripIso :: "string \<Rightarrow> string" where
  \<comment> \<open>\<open>.replace(/[:\-]|\.\d{3}/g, '')\<close>\<close>
  "stripIso [] = []"
| "stripIso (c # cs) =
     (if c = CHR '':'' \<or> c = CHR ''-'' then stripIso cs
      else if c = CHR ''.'' \<and> 3 \<le> length cs \<and> list_all isDigit (take 3 cs)
      then stripIso (drop 3 cs)
      else c # stripIso cs)"

fun splitOn :: "char \<Rightarrow> string \<Rightarrow> string list" where
  \<comment> \<open>\<open>s.split(d)\<close> for a one-character separator\<close>
  "splitOn d [] = [[]]"
| "splitOn d (c # cs) =
     (if c = d then [] # splitOn d cs
      else (case splitOn d cs of x # xs \<Rightarrow> (c # x) # xs | [] \<Rightarrow> [[c]]))"

definition queryOf :: "string \<Rightarrow> string" where
  \<comment> \<open>\<open>url.split('?')[1] || ''\<close>\<close>
  "queryOf url = (case splitOn CHR ''?'' url of _ # q # _ \<Rightarrow> q | _ \<Rightarrow> [])"

record SNSClient =
  accessKeyId :: "string option"
  secretAccessKey :: "string option"
  region :: string
  endpoint :: string

definition newSNSClient :: "string option \<Rightarrow> string option \<Rightarrow> string option \<Rightarrow> SNSClient" where
  \<comment> \<open>the constructor of \<open>verify-phone.ts\<close>; \<open>options.awsRegion || 'us-east-1'\<close>\<close>
  "newSNSClient ak sk awsRegion =
     (let r = (case awsRegion of None \<Rightarrow> ''us-east-1''
                | Some x \<Rightarrow> if x = [] then ''us-east-1'' else x)
      in \<lparr> accessKeyId = ak, secretAccessKey = sk, region = r,
           endpoint = ''https://sns.'' @ r @ ''.amazonaws.com'' \<rparr>)"

text \<open>The locals of \<open>sign\<close>, one definition each, in the order of the source.\<close>

definition amzDateOf :: "string \<Rightarrow> string" where
  "amzDateOf nowIso = stripIso nowIso"

definition dateStampOf :: "string \<Rightarrow> string" where
  "dateStampOf nowIso = take 8 (amzDateOf nowIso)"

definition payloadHashOf :: "crypto \<Rightarrow> string \<Rightarrow> string" where
  "payloadHashOf cr payload = arrayBufferToHex (sha256 cr (stringToUint8Array payload))"

definition injectHeaders :: "crypto \<Rightarrow> string \<Rightarrow> SNSClient \<Rightarrow> headers \<Rightarrow> string \<Rightarrow> headers" where
  \<comment> \<open>the three assignments to \<open>headers\<close> before the canonical request is built\<close>
  "injectHeaders cr nowIso this hdrs payload =
     AList.update ''x-amz-content-sha256'' (payloadHashOf cr payload)
       (AList.update ''x-amz-date'' (amzDateOf nowIso)
         (AList.update ''host'' (''sns.'' @ region this @ ''.amazonaws.com'') hdrs))"

definition sortedHeadersOf :: "headers \<Rightarrow> string" where
  "sortedHeadersOf hdrs =
     join nl (map (\<lambda>key. toLowerCase key @ '':'' @ getHeader hdrs key) (sort (map fst hdrs)))"

definition signedHeaderNames :: "headers \<Rightarrow> string list" where
  "signedHeaderNames hdrs = map toLowerCase (sort (map fst hdrs))"

definition signedHeadersOf :: "headers \<Rightarrow> string" where
  "signedHeadersOf hdrs = join '';'' (signedHeaderNames hdrs)"

definition canonicalRequestOf :: "crypto \<Rightarrow> string \<Rightarrow> string \<Rightarrow> headers \<Rightarrow> string \<Rightarrow> string" where
  \<comment> \<open>\<open>hdrs\<close> is the header object after the three assignments\<close>
  "canonicalRequestOf cr method url hdrs payload =
     join nl [method, ''/'', queryOf url, sortedHeadersOf hdrs, [], signedHeadersOf hdrs,
              payloadHashOf cr payload]"

definition credentialScopeOf :: "string \<Rightarrow> SNSClient \<Rightarrow> string" where
  "credentialScopeOf nowIso this = dateStampOf nowIso @ ''/'' @ region this @ ''/sns/aws4_request''"

definition stringToSignOf :: "crypto \<Rightarrow> string \<Rightarrow> SNSClient \<Rightarrow> string \<Rightarrow> string" where
  "stringToSignOf cr nowIso this canonicalRequest =
     join nl [''AWS4-HMAC-SHA256'', amzDateOf nowIso, credentialScopeOf nowIso this,
              arrayBufferToHex (sha256 cr (stringToUint8Array canonicalRequest))]"

definition signatureOf :: "crypto \<Rightarrow> string \<Rightarrow> SNSClient \<Rightarrow> string \<Rightarrow> string" where
  "signatureOf cr nowIso this stringToSign =
     (let kDate = hmacSha256 cr (stringToUint8Array (''AWS4'' @ templ (secretAccessKey this)))
                    (stringToUint8Array (dateStampOf nowIso));
          kRegion = hmacSha256 cr kDate (stringToUint8Array (region this));
          kService = hmacSha256 cr kRegion (stringToUint8Array ''sns'');
          kSigning = hmacSha256 cr kService (stringToUint8Array ''aws4_request'')
      in arrayBufferToHex (hmacSha256 cr kSigning (stringToUint8Array stringToSign)))"

definition sign :: "crypto \<Rightarrow> string \<Rightarrow> SNSClient \<Rightarrow> string \<Rightarrow> string \<Rightarrow> headers \<Rightarrow> string \<Rightarrow> headers" where
  "sign cr nowIso this method url headers0 payload =
     (let hdrs = injectHeaders cr nowIso this headers0 payload;
          signedHeaders = signedHeadersOf hdrs;
          canonicalRequest = canonicalRequestOf cr method url hdrs payload;
          stringToSign = stringToSignOf cr nowIso this canonicalRequest;
          signature = signatureOf cr nowIso this stringToSign
      in AList.update ''authorization''
           (''AWS4-HMAC-SHA256 Credential='' @ templ (accessKeyId this) @ ''/''
              @ credentialScopeOf nowIso this @ '', SignedHeaders='' @ signedHeaders
              @ '', Signature='' @ signature)
           hdrs)"

definition signingKeySpec :: "crypto \<Rightarrow> string \<Rightarrow> string \<Rightarrow> string \<Rightarrow> byte list" where
  \<comment> \<open>the key chain in the words of the specification (section 4.3, step 7), for comparison\<close>
  "signingKeySpec cr secret dateStamp rgn =
     (let kDate = hmacSha256 cr (stringToUint8Array (''AWS4'' @ secret))
                    (stringToUint8Array dateStamp);
          kRegion = hmacSha256 cr kDate (stringToUint8Array rgn);
          kService = hmacSha256 cr kRegion (stringToUint8Array ''sns'');
          kSigning = hmacSha256 cr kService (stringToUint8Array ''aws4_request'')
      in kSigning)"

section \<open>VoIP classifier: external lookup\<close>

text \<open>
  The lookup reply is a JSON value; \<open>None\<close> of type \<open>json option\<close> is \<open>undefined\<close>.
  Numbers are integers here, only their truthiness is used. An object is an association
  list, read with \<^const>\<open>map_of\<close>.
\<close>

datatype json =
    JNull
  | JBool bool
  | JNumber int
  | JString string
  | JArray "json list"
  | JObject "(string \<times> json) list"

type_synonym jsval = "json option"

fun truthy :: "jsval \<Rightarrow> bool" where
  "truthy None = False"
| "truthy (Some JNull) = False"
| "truthy (Some (JBool b)) = b"
| "truthy (Some (JNumber n)) = (n \<noteq> 0)"
| "truthy (Some (JString s)) = (s \<noteq> [])"
| "truthy (Some (JArray _)) = True"
| "truthy (Some (JObject _)) = True"

definition typeErrorRead :: "string \<Rightarrow> js_error" where
  \<comment> \<open>reading or calling a property of \<open>undefined\<close> or \<open>null\<close>; the wording is the engine's\<close>
  "typeErrorRead p = JsError ''TypeError'' (''Cannot read properties of undefined (reading '' @ p @ '')'')"

fun getProp :: "jsval \<Rightarrow> string \<Rightarrow> js_error + jsval" where
  \<comment> \<open>\<open>v.p\<close> for the property names of the lookup reply, none of which a primitive or an
      array has\<close>
  "getProp None p = Inl (typeErrorRead p)"
| "getProp (Some JNull) p = Inl (typeErrorRead p)"
| "getProp (Some (JObject kvs)) p = Inr (map_of kvs p)"
| "getProp (Some _) p = Inr None"

fun callToLowerCase :: "jsval \<Rightarrow> js_error + string" where
  \<comment> \<open>\<open>v.toLowerCase()\<close>: only a string has the method\<close>
  "callToLowerCase (Some (JString s)) = Inr (toLowerCase s)"
| "callToLowerCase _ = Inl (typeErrorRead ''toLowerCase'')"

definition lowerOfPath :: "jsval \<Rightarrow> string \<Rightarrow> string \<Rightarrow> js_error + string" where
  \<comment> \<open>\<open>phoneData.a.b.toLowerCase()\<close>\<close>
  "lowerOfPath phoneData a b =
     (case getProp phoneData a of
        Inl e \<Rightarrow> Inl e
      | Inr x \<Rightarrow> (case getProp x b of
                    Inl e \<Rightarrow> Inl e
                  | Inr y \<Rightarrow> callToLowerCase y))"

datatype lookup_outcome =
    LookupRejects js_error
    \<comment> \<open>\<open>fetch\<close> rejects: a network failure\<close>
  | LookupResponse (lookup_ok: bool) (lookup_status: nat) (lookup_json: "js_error + jsval")
    \<comment> \<open>a response; \<open>response.json()\<close> rejects with \<open>Inl\<close> on a body that is not JSON\<close>

definition isPhoneNumberVoip_body :: "lookup_outcome \<Rightarrow> js_error + bool" where
  \<comment> \<open>the \<open>try\<close> block of \<open>isPhoneNumberVoip\<close>\<close>
  "isPhoneNumberVoip_body r =
     (case r of
        LookupRejects e \<Rightarrow> Inl e
      | LookupResponse ok status parsed \<Rightarrow>
          if \<not> ok then Inr False
          else (case parsed of
                  Inl e \<Rightarrow> Inl e
                | Inr phoneData \<Rightarrow>
                    if \<not> truthy phoneData then Inr False
                    else (case getProp phoneData ''carrier'' of
                            Inl e \<Rightarrow> Inl e
                          | Inr carrier \<Rightarrow>
                              if \<not> truthy carrier then Inr False
                              else (case lowerOfPath phoneData ''carrier'' ''name'' of
                                      Inl e \<Rightarrow> Inl e
                                    | Inr nm \<Rightarrow>
                                        if str_includes nm ''bandwidth'' then Inr True
                                        else (case lowerOfPath phoneData ''carrier'' ''type'' of
                                                Inl e \<Rightarrow> Inl e
                                              | Inr ty \<Rightarrow>
                                                  if ty = ''voip'' then Inr True
                                                  else (case lowerOfPath phoneData ''portability'' ''line_type'' of
                                                          Inl e \<Rightarrow> Inl e
                                                        | Inr lt \<Rightarrow> Inr (lt = ''mobile'')))))))"

definition isPhoneNumberVoip :: "lookup_outcome \<Rightarrow> bool" where
  \<comment> \<open>the \<open>catch\<close> block returns \<open>false\<close>\<close>
  "isPhoneNumberVoip r = (case isPhoneNumberVoip_body r of Inl e \<Rightarrow> False | Inr b \<Rightarrow> b)"

section \<open>VoIP classifier: local heuristic\<close>

text \<open>
  \<open>libphonenumber-js\<close> is an external library; what it answers is a parameter of the
  model. \<open>parsePhoneNumber\<close> throws, returns \<open>undefined\<close> or returns a parsed number, of
  which the code reads the fields of \<open>phone_record\<close>; its argument is a string or
  \<open>undefined\<close>.
\<close>

datatype 'a js_call = Throws js_error | Returns 'a

record phone_record =
  country :: "string option"
  nationalNumber :: string
  isValid :: bool
  isNonGeographic :: bool
  formatE164 :: string

definition voipAreaCodes :: "string list" where
  "voipAreaCodes =
     [''800'', ''888'', ''877'', ''866'', ''855'', ''844'', ''833'',
      ''900'', ''976'',
      ''700'',
      ''500'', ''521'', ''522'', ''523'', ''524'', ''525'', ''526'', ''527'', ''528'', ''529'',
      ''600'', ''601'', ''602'', ''603'', ''604'', ''605'', ''606'', ''607'', ''608'', ''609'']"

definition voipEndings :: "string list" where
  "voipEndings = [''0000'', ''1111'', ''2222'', ''3333'', ''4444'', ''5555'', ''6666'',
                  ''7777'', ''8888'', ''9999'']"

fun hasRepeatedDigits :: "string \<Rightarrow> bool" where
  \<comment> \<open>\<open>/(\d)\1{2,}/.test(s)\<close>: some digit three times in a row\<close>
  "hasRepeatedDigits (a # b # c # cs) =
     ((isDigit a \<and> b = a \<and> c = a) \<or> hasRepeatedDigits (b # c # cs))"
| "hasRepeatedDigits _ = False"

definition stepUp :: "char \<Rightarrow> char \<Rightarrow> bool" where
  \<comment> \<open>one alternative \<open>d(?=e)\<close> of the sequential expression: \<open>d\<close> in \<open>0..8\<close>, \<open>e\<close> its successor\<close>
  "stepUp a b = (isDigit a \<and> isDigit b \<and> (of_char b :: nat) = of_char a + 1)"

fun hasSequentialDigits :: "string \<Rightarrow> bool" where
  \<comment> \<open>\<open>/(?:0(?=1)|1(?=2)|...|8(?=9)){3,}/.test(s)\<close>: three steps in a row, four digits\<close>
  "hasSequentialDigits (a # b # c # d # cs) =
     ((stepUp a b \<and> stepUp b c \<and> stepUp c d) \<or> hasSequentialDigits (b # c # d # cs))"
| "hasSequentialDigits _ = False"

definition patternHeuristics :: "string \<Rightarrow> bool" where
  \<comment> \<open>step 4 of \<open>isPhoneNumberVoipLibPhoneNumber\<close>\<close>
  "patternHeuristics national =
     (if hasRepeatedDigits national then True
      else if hasSequentialDigits national then True
      else if list_ex (\<lambda>ending. endsWith national ending) voipEndings then True
      else if length (remdups national) \<le> 3 \<and> 7 \<le> length national then True
      else False)"

definition typeVerdict :: "string option js_call \<Rightarrow> bool option" where
  \<comment> \<open>step 3, under \<open>metadataType === 'full'\<close>: \<open>Some\<close> is a \<open>return\<close>, \<open>None\<close> goes on to the
      pattern rules (also when \<open>getNumberType\<close> throws)\<close>
  "typeVerdict t =
     (case t of
        Throws e \<Rightarrow> None
      | Returns numberType \<Rightarrow>
          if numberType = Some ''VOIP'' then Some True
          else if numberType = Some ''PREMIUM_RATE'' \<or> numberType = Some ''TOLL_FREE'' then Some True
          else if numberType = Some ''SHARED_COST'' then Some True
          else if numberType = Some ''MOBILE'' then Some False
          else if numberType = Some ''FIXED_LINE'' then Some False
          else None)"

definition isPhoneNumberVoipLibPhoneNumber ::
  "(string option \<Rightarrow> phone_record option js_call) \<Rightarrow> (string \<Rightarrow> string option js_call)
     \<Rightarrow> string \<Rightarrow> string \<Rightarrow> bool" where
  "isPhoneNumberVoipLibPhoneNumber parsePhoneNumber getNumberType phone metadataType =
     (case parsePhoneNumber (Some phone) of
        Throws e \<Rightarrow> False
      | Returns None \<Rightarrow> False
      | Returns (Some phoneNumber) \<Rightarrow>
          if \<not> isValid phoneNumber then False
          else if country phoneNumber = Some ''US''
                  \<and> take 3 (nationalNumber phoneNumber) \<in> set voipAreaCodes then True
          else if isNonGeographic phoneNumber then True
          else (case (if metadataType = ''full'' then typeVerdict (getNumberType phone) else None) of
                  Some verdict \<Rightarrow> verdict
                | None \<Rightarrow> patternHeuristics (nationalNumber phoneNumber)))"

section \<open>Rich strategy of the normaliser and validator\<close>

definition formatPhoneNumberArg :: "string option \<Rightarrow> js_error + string" where
  \<comment> \<open>\<open>formatPhoneNumber(phone)\<close> with an argument that may be \<open>undefined\<close>:
      \<open>phone.replace\<close> then throws\<close>
  "formatPhoneNumberArg phone =
     (case phone of None \<Rightarrow> Inl typeErrorReplace | Some p \<Rightarrow> Inr (formatPhoneNumber p))"

definition formatPhoneNumberLibPhoneNumber ::
  "(string option \<Rightarrow> phone_record option js_call) \<Rightarrow> string option \<Rightarrow> js_error + string" where
  "formatPhoneNumberLibPhoneNumber parse phone =
     (case parse phone of
        Returns (Some parsed) \<Rightarrow>
          if isValid parsed then Inr (formatE164 parsed) else formatPhoneNumberArg phone
      | Returns None \<Rightarrow> formatPhoneNumberArg phone
      | Throws e \<Rightarrow> formatPhoneNumberArg phone)"

definition isValidPhoneNumber ::
  "(string option \<Rightarrow> phone_record option js_call) \<Rightarrow> string \<Rightarrow> bool \<Rightarrow> bool" where
  "isValidPhoneNumber parse phone useLibPhoneNumber =
     (case (if useLibPhoneNumber then
              (case parse (Some phone) of
                 Returns (Some parsed) \<Rightarrow> Some (isValid parsed)
               | Returns None \<Rightarrow> Some False
               | Throws e \<Rightarrow> None)
            else None) of
        Some verdict \<Rightarrow> verdict
      | None \<Rightarrow> isValidPhoneNumberBasic phone)"

section \<open>Transport\<close>

datatype publish_outcome =
    PublishRejects js_error
    \<comment> \<open>\<open>fetch\<close> or \<open>response.text()\<close> rejects\<close>
  | PublishResponse (publish_ok: bool) (publish_status: nat) (publish_text: string)

datatype process_binding =
    ProcessUndeclared
    \<comment> \<open>no binding \<open>process\<close> in scope: evaluating the identifier throws\<close>
  | ProcessValue "(string \<Rightarrow> string option) option"
    \<comment> \<open>\<open>process\<close> is declared; \<open>None\<close> when it or its \<open>env\<close> is \<open>undefined\<close> or \<open>null\<close>\<close>

text \<open>
  What one call of \<open>verifyPhone\<close> takes from its platform: the global \<open>process\<close>, Web
  Crypto, the clock, \<open>URLSearchParams\<close> and \<open>encodeURIComponent\<close>, the two remote
  services as the answer each gives to a request, \<open>libphonenumber-js\<close>, and the
  \<open>stack\<close> property of an error.
\<close>

record platform =
  env_process :: process_binding
  web_crypto :: crypto
  clock_iso :: string
  url_searchParams :: "(string \<times> string) list \<Rightarrow> string"
  url_encodeComponent :: "string \<Rightarrow> string"
  net_lookup :: "string \<Rightarrow> lookup_outcome"
  net_publish :: "string \<Rightarrow> headers \<Rightarrow> publish_outcome"
  lib_parsePhoneNumber :: "string option \<Rightarrow> phone_record option js_call"
  lib_getNumberType :: "string \<Rightarrow> string option js_call"
  err_stack :: "js_error \<Rightarrow> string option"

datatype event =
    LookupFetch string
  | VoipVerdict bool
  | ClientConstructed SNSClient
  | SignCall string
  | PublishFetch string headers

fun isTransportEvent :: "event \<Rightarrow> bool" where
  "isTransportEvent (ClientConstructed c) = True"
| "isTransportEvent (SignCall u) = True"
| "isTransportEvent (PublishFetch u h) = True"
| "isTransportEvent _ = False"

fun digitsOf :: "nat \<Rightarrow> nat \<Rightarrow> string" where
  \<comment> \<open>the decimal digits of \<open>n\<close>, most significant first; \<open>fuel\<close> bounds the number of digits\<close>
  "digitsOf 0 n = []"
| "digitsOf (Suc fuel) n =
     (if n < 10 then [char_of (48 + n)]
      else digitsOf fuel (n div 10) @ [char_of (48 + n mod 10)])"

definition showNat :: "nat \<Rightarrow> string" where
  \<comment> \<open>a number inside a template literal\<close>
  "showNat n = digitsOf (Suc n) n"

definition makeRequest ::
  "platform \<Rightarrow> SNSClient \<Rightarrow> string \<Rightarrow> (string \<times> string) list
     \<Rightarrow> (js_error + sns_response) \<times> event list" where
  "makeRequest pf this action params =
     (let queryParams = url_searchParams pf
                          ((''Action'', action) # (''Version'', ''2010-03-31'') # params);
          url = endpoint this @ ''/?'' @ queryParams;
          payload = [];
          headers0 = [(''Content-Type'', ''application/x-www-form-urlencoded; charset=utf-8'')];
          signedHeaders = sign (web_crypto pf) (clock_iso pf) this ''GET'' url headers0 payload;
          attempt = (case net_publish pf url signedHeaders of
                       PublishRejects e \<Rightarrow> Inl e
                     | PublishResponse ok status text \<Rightarrow>
                         if \<not> ok
                         then Inl (JsError ''Error''
                                (''SNS API Error: '' @ showNat status @ '' - '' @ text))
                         else parseXMLResponse text)
      in (case attempt of
            Inl e \<Rightarrow> Inl (JsError ''Error'' (''SNS Request failed: '' @ errMessage e))
          | Inr response \<Rightarrow> Inr response,
          [SignCall url, PublishFetch url signedHeaders]))"

section \<open>Verification orchestrator\<close>

text \<open>
  An options object holds, for each field, a value of the declared type or nothing
  (\<open>undefined\<close>). The fields of the result are those of the caller-facing shape.
\<close>

record VerifyPhoneOptions =
  opt_phoneNumber :: "string option"
  opt_code :: "string option"
  opt_accessKeyId :: "string option"
  opt_secretAccessKey :: "string option"
  opt_awsRegion :: "string option"
  opt_blockVoip :: "bool option"
  opt_voipDetectionMethod :: "string option"
  opt_useLibPhoneNumber :: "bool option"
  opt_metadataType :: "string option"
  opt_senderId :: "string option"
  opt_smsType :: "string option"
  opt_messageTemplate :: "string option"

record DispatchResult =
  success :: bool
  message :: "string option"
  messageId :: "string option"
  code :: "string option"
  phoneNumber :: "string option"
  expiresIn :: "nat option"
  error :: "string option"
  details :: "string option"
  isVoip :: "bool option"

definition envDefault :: "process_binding \<Rightarrow> string option \<Rightarrow> string \<Rightarrow> js_error + string option" where
  \<comment> \<open>the destructuring default \<open>v = process?.env?.KEY\<close>: evaluated only when the field
      is \<open>undefined\<close>\<close>
  "envDefault pb v key =
     (case v of
        Some x \<Rightarrow> Inr (Some x)
      | None \<Rightarrow> (case pb of
                   ProcessUndeclared \<Rightarrow> Inl (JsError ''ReferenceError'' ''process is not defined'')
                 | ProcessValue None \<Rightarrow> Inr None
                 | ProcessValue (Some env) \<Rightarrow> Inr (env key)))"

definition orDefault :: "'a option \<Rightarrow> 'a \<Rightarrow> 'a" where
  \<comment> \<open>a destructuring default that is a literal\<close>
  "orDefault v d = (case v of None \<Rightarrow> d | Some x \<Rightarrow> x)"

fun replaceFirst :: "string \<Rightarrow> string \<Rightarrow> string \<Rightarrow> string" where
  \<comment> \<open>\<open>s.replace(pat, rep)\<close> for a string \<open>pat\<close> and a replacement without \<open>$\<close>\<close>
  "replaceFirst pat rep [] = (if pat = [] then rep else [])"
| "replaceFirst pat rep (c # cs) =
     (if startsWith (c # cs) pat then rep @ drop (length pat) (c # cs)
      else c # replaceFirst pat rep cs)"

definition voipRejection :: DispatchResult where
  "voipRejection =
     \<lparr> success = False, message = None, messageId = None, code = None, phoneNumber = None,
       expiresIn = None, error = Some ''VoIP numbers are not allowed'',
       details = Some ''This phone number appears to be a VoIP number, which is not supported for verification'',
       isVoip = Some True \<rparr>"

definition caughtFailure :: "platform \<Rightarrow> js_error \<Rightarrow> DispatchResult" where
  \<comment> \<open>the \<open>catch\<close> block of \<open>verifyPhone\<close>; \<open>error.stack || undefined\<close>\<close>
  "caughtFailure pf e =
     \<lparr> success = False, message = None, messageId = None, code = None, phoneNumber = None,
       expiresIn = None, error = Some (errMessage e),
       details = (case err_stack pf e of None \<Rightarrow> None
                  | Some st \<Rightarrow> if st = [] then None else Some st),
       isVoip = None \<rparr>"

definition checkVoip :: "platform \<Rightarrow> VerifyPhoneOptions \<Rightarrow> string \<Rightarrow> bool \<times> event list" where
  \<comment> \<open>the classifier call under \<open>if (blockVoip)\<close>\<close>
  "checkVoip pf options formattedPhone =
     (if orDefault (opt_voipDetectionMethod options) ''api'' = ''libphonenumber''
      then (let v = isPhoneNumberVoipLibPhoneNumber (lib_parsePhoneNumber pf) (lib_getNumberType pf)
                      formattedPhone (orDefault (opt_metadataType options) ''minimal'')
            in (v, [VoipVerdict v]))
      else (let url = ''https://www.sent.dm/api/phone-lookup?phone=''
                        @ url_encodeComponent pf formattedPhone;
                v = isPhoneNumberVoip (net_lookup pf url)
            in (v, [LookupFetch url, VoipVerdict v])))"

definition dispatch ::
  "platform \<Rightarrow> VerifyPhoneOptions \<Rightarrow> string option \<Rightarrow> string option \<Rightarrow> string option
     \<Rightarrow> string \<Rightarrow> string \<Rightarrow> (js_error + DispatchResult) \<times> event list" where
  \<comment> \<open>\<open>verifyPhone\<close> from \<open>new SNSClient\<close> to the \<open>return\<close> of the success result\<close>
  "dispatch pf options ak sk awsRegion code0 formattedPhone =
     (let snsClient = newSNSClient ak sk awsRegion;
          msg = replaceFirst ''{code}'' code0
                  (orDefault (opt_messageTemplate options) ''Your verification code is: {code}.'');
          params = [(''Message'', msg),
                    (''PhoneNumber'', formattedPhone),
                    (''MessageAttributes.entry.1.Name'', ''AWS.SNS.SMS.SenderID''),
                    (''MessageAttributes.entry.1.Value.DataType'', ''String''),
                    (''MessageAttributes.entry.1.Value.StringValue'',
                       orDefault (opt_senderId options) ''Verify''),
                    (''MessageAttributes.entry.2.Name'', ''AWS.SNS.SMS.SMSType''),
                    (''MessageAttributes.entry.2.Value.DataType'', ''String''),
                    (''MessageAttributes.entry.2.Value.StringValue'',
                       orDefault (opt_smsType options) ''Transactional'')];
          sent = makeRequest pf snsClient ''Publish'' params
      in (case fst sent of
            Inl e \<Rightarrow> Inl e
          | Inr response \<Rightarrow>
              Inr \<lparr> success = True, message = Some ''Verification code sent successfully'',
                    messageId = responseMessageId response, code = Some code0,
                    phoneNumber = Some formattedPhone, expiresIn = Some 600,
                    error = None, details = None, isVoip = None \<rparr>,
          ClientConstructed snsClient # snd sent))"

definition validated :: "platform \<Rightarrow> VerifyPhoneOptions \<Rightarrow> js_error + string \<times> string" where
  \<comment> \<open>the \<open>try\<close> block of \<open>verifyPhone\<close> down to the check of the formatted number: a
      \<open>throw\<close>, or the code and the formatted number\<close>
  "validated pf options =
     (case opt_code options of
        None \<Rightarrow> Inl (JsError ''Error'' ''Verification code is required'')
      | Some code0 \<Rightarrow>
          if code0 = [] then Inl (JsError ''Error'' ''Verification code is required'')
          else if \<not> (4 \<le> length code0 \<and> list_all isAlnum code0)
          then Inl (JsError ''Error'' ''Code must be alphanumeric and at least 4 characters'')
          else
            (let useLib = orDefault (opt_useLibPhoneNumber options) False in
             case (if useLib
                   then formatPhoneNumberLibPhoneNumber (lib_parsePhoneNumber pf)
                          (opt_phoneNumber options)
                   else formatPhoneNumberArg (opt_phoneNumber options)) of
               Inl e \<Rightarrow> Inl e
             | Inr formattedPhone \<Rightarrow>
                 if \<not> isValidPhoneNumber (lib_parsePhoneNumber pf) formattedPhone useLib
                 then Inl (JsError ''Error''
                        ''Invalid phone number format. Please use E.164 format (e.g., +1234567890)'')
                 else Inr (code0, formattedPhone)))"

definition verifyPhone_try ::
  "platform \<Rightarrow> VerifyPhoneOptions \<Rightarrow> string option \<Rightarrow> string option \<Rightarrow> string option
     \<Rightarrow> (js_error + DispatchResult) \<times> event list" where
  \<comment> \<open>the whole \<open>try\<close> block; the three arguments are the destructured \<open>accessKeyId\<close>,
      \<open>secretAccessKey\<close> and \<open>awsRegion\<close>\<close>
  "verifyPhone_try pf options ak sk awsRegion =
     (case validated pf options of
        Inl e \<Rightarrow> (Inl e, [])
      | Inr (code0, formattedPhone) \<Rightarrow>
          (let checked = (if orDefault (opt_blockVoip options) False
                          then checkVoip pf options formattedPhone
                          else (False, []))
           in if fst checked then (Inr voipRejection, snd checked)
              else (let sent = dispatch pf options ak sk awsRegion code0 formattedPhone
                    in (fst sent, snd checked @ snd sent))))"

definition verifyPhone :: "platform \<Rightarrow> VerifyPhoneOptions \<Rightarrow> DispatchResult js_call \<times> event list" where
  \<comment> \<open>\<open>Throws\<close>: the promise is rejected, the exception reaches the caller\<close>
  "verifyPhone pf options =
     (case envDefault (env_process pf) (opt_accessKeyId options) ''AWS_ACCESS_KEY_ID'' of
        Inl e \<Rightarrow> (Throws e, [])
      | Inr ak \<Rightarrow>
     (case envDefault (env_process pf) (opt_secretAccessKey options) ''AWS_SECRET_ACCESS_KEY'' of
        Inl e \<Rightarrow> (Throws e, [])
      | Inr sk \<Rightarrow>
     (case envDefault (env_process pf) (opt_awsRegion options) ''AWS_REGION'' of
        Inl e \<Rightarrow> (Throws e, [])
      | Inr awsRegion \<Rightarrow>
          (let attempt = verifyPhone_try pf options ak sk awsRegion
           in (case fst attempt of
                 Inl e \<Rightarrow> Returns (caughtFailure pf e)
               | Inr r \<Rightarrow> Returns r,
               snd attempt)))))"

section \<open>Values for the examples\<close>

text \<open>
  Stand-ins for what the platform supplies, used where a property is evaluated on a
  concrete call: a digest and a keyed digest that are easy to read, a library answer for
  the two numbers of the examples, and two lookup replies.
\<close>

definition exampleCrypto :: crypto where
  "exampleCrypto = \<lparr> sha256 = (\<lambda>data. take 4 data), hmacSha256 = (\<lambda>key data. take 4 (key @ data)) \<rparr>"


definition exampleParse :: "string option \<Rightarrow> phone_record option js_call" where
  "exampleParse p =
     (if p = Some ''+18005551234''
      then Returns (Some \<lparr> country = Some ''US'', nationalNumber = ''8005551234'',
                            isValid = True, isNonGeographic = False,
                            formatE164 = ''+18005551234'' \<rparr>)
      else if p = Some ''+12065551234''
      then Returns (Some \<lparr> country = Some ''US'', nationalNumber = ''2065551234'',
                            isValid = True, isNonGeographic = False,
                            formatE164 = ''+12065551234'' \<rparr>)
      else Returns None)"

definition noNumberType :: "string \<Rightarrow> string option js_call" where
  \<comment> \<open>\<open>getNumberType\<close> without the extended metadata: it has no answer\<close>
  "noNumberType p = Returns None"

definition bandwidthReply :: lookup_outcome where
  "bandwidthReply =
     LookupResponse True 200
       (Inr (Some (JObject
          [(''carrier'', JObject [(''name'', JString ''Bandwidth''), (''type'', JString ''voip'')]),
           (''portability'', JObject [(''line_type'', JString ''landline'')])])))"

definition noPortabilityReply :: lookup_outcome where
  "noPortabilityReply =
     LookupResponse True 200
       (Inr (Some (JObject
          [(''carrier'', JObject [(''name'', JString ''Verizon''), (''type'', JString ''landline'')])])))"

definition examplePlatform :: platform where
  \<comment> \<open>a runtime with \<open>process.env\<close> and none of the three AWS variables set; the lookup
      service reports a Bandwidth number, the provider accepts every request\<close>
  "examplePlatform =
     \<lparr> env_process = ProcessValue (Some (\<lambda>key. None)),
       web_crypto = exampleCrypto,
       clock_iso = ''2026-11-03T13:41:05.123Z'',
       url_searchParams = (\<lambda>ps. concat (map (\<lambda>(k, v). k @ ''='' @ v @ ''&'') ps)),
       url_encodeComponent = (\<lambda>s. s),
       net_lookup = (\<lambda>url. bandwidthReply),
       net_publish = (\<lambda>url h. PublishResponse True 200 ''<MessageId>abc123</MessageId>''),
       lib_parsePhoneNumber = exampleParse,
       lib_getNumberType = noNumberType,
       err_stack = (\<lambda>e. None) \<rparr>"

definition exampleOptions :: VerifyPhoneOptions where
  \<comment> \<open>\<open>{ phoneNumber: '+12065551234', code: '1234' }\<close>\<close>
  "exampleOptions =
     \<lparr> opt_phoneNumber = Some ''+12065551234'', opt_code = Some ''1234'',
       opt_accessKeyId = None, opt_secretAccessKey = None, opt_awsRegion = None,
       opt_blockVoip = None, opt_voipDetectionMethod = None, opt_useLibPhoneNumber = None,
       opt_metadataType = None, opt_senderId = None, opt_smsType = None,
       opt_messageTemplate = None \<rparr>"

definition exampleParams :: "(string \<times> string) list" where
  \<comment> \<open>the query parameters of the publish request for \<open>exampleOptions\<close>\<close>
  "exampleParams =
     [(''Action'', ''Publish''), (''Version'', ''2010-03-31''),
      (''Message'', ''Your verification code is: 1234.''),
      (''PhoneNumber'', ''+12065551234''),
      (''MessageAttributes.entry.1.Name'', ''AWS.SNS.SMS.SenderID''),
      (''MessageAttributes.entry.1.Value.DataType'', ''String''),
      (''MessageAttributes.entry.1.Value.StringValue'', ''Verify''),
      (''MessageAttributes.entry.2.Name'', ''AWS.SNS.SMS.SMSType''),
      (''MessageAttributes.entry.2.Value.DataType'', ''String''),
      (''MessageAttributes.entry.2.Value.StringValue'', ''Transactional'')]"

definition clientWithoutCredentials :: SNSClient where
  "clientWithoutCredentials =
     \<lparr> accessKeyId = None, secretAccessKey = None, region = ''us-east-1'',
       endpoint = ''https://sns.us-east-1.amazonaws.com'' \<rparr>"

definition exampleVoipOptions :: VerifyPhoneOptions where
  \<comment> \<open>\<open>{ phoneNumber: '5551234567', code: '1234', blockVoip: true }\<close>\<close>
  "exampleVoipOptions =
     exampleOptions \<lparr> opt_phoneNumber := Some ''5551234567'', opt_blockVoip := Some True \<rparr>"

section \<open>Properties of the basic normaliser\<close>

lemma startsWith_Cons [simp]: "startsWith (c # cs) [d] = (c = d)"
  by (simp add: startsWith_def)

lemma startsWith_Nil [simp]: "startsWith [] [d] = False"
  by (simp add: startsWith_def)

lemma isDigit_plus [simp]: "\<not> isDigit CHR ''+''"
  by (simp add: isDigit_def)


lemma formatPhoneNumber_ten_digits:
  "list_all isDigit d \<Longrightarrow> length d = 10 \<Longrightarrow> formatPhoneNumber d = ''+1'' @ d"
  by (simp add: formatPhoneNumber_def Let_def list_all_iff)





section \<open>Properties of the response extractor\<close>

lemma takeWhile_upto: "x \<notin> set g \<Longrightarrow> takeWhile (\<lambda>c. c \<noteq> x) (g @ x # r) = g"
  by (induction g) auto

lemma matchTagHere_sound:
  assumes "matchTagHere otag ctag s = Some g"
  shows "g \<noteq> [] \<and> CHR ''<'' \<notin> set g \<and> (\<exists>post. s = otag @ g @ ctag @ post)"
proof -
  let ?rest = "drop (length otag) s"
  from assms have sw: "take (length otag) s = otag"
    and g: "g = takeWhile (\<lambda>c. c \<noteq> CHR ''<'') ?rest" and ne: "g \<noteq> []"
    and ct: "take (length ctag) (drop (length g) ?rest) = ctag"
    by (auto simp: matchTagHere_def startsWith_def Let_def split: if_splits)
  have "CHR ''<'' \<notin> set g" using g by (auto dest: set_takeWhileD)
  moreover have "s = otag @ ?rest" using sw by (metis append_take_drop_id)
  moreover have "?rest = g @ drop (length g) ?rest"
    using g by (metis append_take_drop_id takeWhile_eq_take)
  moreover have "drop (length g) ?rest = ctag @ drop (length ctag) (drop (length g) ?rest)"
    using ct by (metis append_take_drop_id)
  ultimately show ?thesis using ne by metis
qed

lemma matchTag_sound:
  "matchTag otag ctag s = Some g \<Longrightarrow>
     g \<noteq> [] \<and> CHR ''<'' \<notin> set g \<and> (\<exists>pre post. s = pre @ otag @ g @ ctag @ post)"
proof (induction s)
  case Nil
  then show ?case using matchTagHere_sound [of otag ctag "[]" g] by auto
next
  case (Cons c cs)
  show ?case
  proof (cases "matchTagHere otag ctag (c # cs)")
    case None
    with Cons.prems have "matchTag otag ctag cs = Some g" by simp
    from Cons.IH [OF this] obtain pre post
      where g: "g \<noteq> []" "CHR ''<'' \<notin> set g" and cs: "cs = pre @ otag @ g @ ctag @ post"
      by blast
    from cs have "c # cs = (c # pre) @ otag @ g @ ctag @ post" by simp
    with g show ?thesis by blast
  next
    case (Some a)
    with Cons.prems have "a = g" by simp
    with Some matchTagHere_sound [of otag ctag "c # cs" g] show ?thesis
      by (metis append_Nil)
  qed
qed

lemma matchTagHere_complete:
  assumes "g \<noteq> []" and "CHR ''<'' \<notin> set g" and "ctag \<noteq> []" and "hd ctag = CHR ''<''"
  shows "matchTagHere otag ctag (otag @ g @ ctag @ post) = Some g"
proof -
  obtain ts where ct: "ctag = CHR ''<'' # ts" using assms(3,4) by (cases ctag) auto
  have "takeWhile (\<lambda>c. c \<noteq> CHR ''<'') (g @ ctag @ post) = g"
    using assms(2) by (simp add: ct takeWhile_upto)
  then show ?thesis using assms(1)
    by (simp add: matchTagHere_def startsWith_def Let_def)
qed

lemma matchTag_complete:
  assumes "g \<noteq> []" and "CHR ''<'' \<notin> set g" and "ctag \<noteq> []" and "hd ctag = CHR ''<''"
  shows "matchTag otag ctag (pre @ otag @ g @ ctag @ post) \<noteq> None"
proof (induction pre)
  case Nil
  have "matchTagHere otag ctag (otag @ g @ ctag @ post) = Some g"
    using matchTagHere_complete [OF assms] .
  then show ?case by (cases "otag @ g @ ctag @ post") auto
next
  case (Cons a pre)
  then show ?case by (auto split: option.splits)
qed

text \<open>The extractor of \<open>verify-phone.ts\<close> on the three shapes of a reply.\<close>

lemma parseXMLResponse_error:
  "matchTag ''<Code>'' ''</Code>'' body = Some c \<Longrightarrow>
   matchTag ''<Message>'' ''</Message>'' body = Some m \<Longrightarrow>
   parseXMLResponse body = Inl (JsError ''Error'' (c @ '': '' @ m))"
  by (simp add: parseXMLResponse_def)

lemma parseXMLResponse_messageId:
  "matchTag ''<Code>'' ''</Code>'' body = None \<or> matchTag ''<Message>'' ''</Message>'' body = None \<Longrightarrow>
   matchTag ''<MessageId>'' ''</MessageId>'' body = Some i \<Longrightarrow>
   parseXMLResponse body = Inr (MessageIdResp i)"
  by (auto simp: parseXMLResponse_def Let_def split: option.splits)

lemma parseXMLResponse_raw:
  "matchTag ''<Code>'' ''</Code>'' body = None \<or> matchTag ''<Message>'' ''</Message>'' body = None \<Longrightarrow>
   matchTag ''<MessageId>'' ''</MessageId>'' body = None \<Longrightarrow>
   parseXMLResponse body = Inr (RawResp body)"
  by (auto simp: parseXMLResponse_def Let_def split: option.splits)

lemma parseXMLResponse_messageId_example:
  "parseXMLResponse ''<MessageId>abc123</MessageId>'' = Inr (MessageIdResp ''abc123'')"
  by (simp add: parseXMLResponse_def matchTagHere_def startsWith_def)

lemma parseXMLResponse_sns_never_raises: "\<exists>r. parseXMLResponse_sns body = Inr r"
  by (simp add: parseXMLResponse_sns_def split: option.splits)

text \<open>
  C8. On the reply \<open><Code>Throttled</Code><Message>rate exceeded</Message>\<close> the extractor
  of \<open>verify-phone.ts\<close> raises an error that carries both values, as the claim says; the
  extractor of \<open>sns.js\<close> has no such branch and returns the raw reply.
\<close>

theorem parseXMLResponse_sns_error_body_returned:
  "parseXMLResponse ''<Code>Throttled</Code><Message>rate exceeded</Message>''
     = Inl (JsError ''Error'' ''Throttled: rate exceeded'')
   \<and> parseXMLResponse_sns ''<Code>Throttled</Code><Message>rate exceeded</Message>''
     = Inr (RawResp ''<Code>Throttled</Code><Message>rate exceeded</Message>'')"
  by (simp add: parseXMLResponse_def parseXMLResponse_sns_def matchTagHere_def startsWith_def)

section \<open>Properties of the canonical request and the signature\<close>

lemma sign_authorization:
  "map_of (sign cr nowIso this method url h payload) ''authorization'' =
     Some (''AWS4-HMAC-SHA256 Credential='' @ templ (accessKeyId this) @ ''/''
           @ credentialScopeOf nowIso this @ '', SignedHeaders=''
           @ signedHeadersOf (injectHeaders cr nowIso this h payload) @ '', Signature=''
           @ signatureOf cr nowIso this
               (stringToSignOf cr nowIso this
                  (canonicalRequestOf cr method url (injectHeaders cr nowIso this h payload) payload)))"
  by (simp add: sign_def Let_def update_conv')

lemma canonicalRequestOf_layout:
  "canonicalRequestOf cr method url hdrs payload =
     method @ nl @ ''/'' @ nl @ queryOf url @ nl @ sortedHeadersOf hdrs @ nl @ nl
       @ signedHeadersOf hdrs @ nl @ payloadHashOf cr payload"
  by (simp add: canonicalRequestOf_def)

lemma signedHeaderNames_lower_case_keys:
  assumes "\<And>k. k \<in> set (map fst hdrs) \<Longrightarrow> toLowerCase k = k"
  shows "signedHeaderNames hdrs = sort (map toLowerCase (map fst hdrs))"
proof -
  have a: "map toLowerCase (sort (map fst hdrs)) = sort (map fst hdrs)"
    by (rule map_idI) (simp add: assms)
  have b: "map toLowerCase (map fst hdrs) = map fst hdrs"
    by (rule map_idI) (simp add: assms)
  show ?thesis
    unfolding signedHeaderNames_def a b ..
qed

lemma toLowerCase_X_Custom: "toLowerCase ''X-Custom'' = ''x-custom''"
  by code_simp

lemma toLowerCase_Content_Type: "toLowerCase ''Content-Type'' = ''content-type''"
  by code_simp

lemma toLowerCase_host: "toLowerCase ''host'' = ''host''"
  by code_simp

lemma toLowerCase_x_amz_date: "toLowerCase ''x-amz-date'' = ''x-amz-date''"
  by code_simp

lemma toLowerCase_x_amz_content_sha256:
  "toLowerCase ''x-amz-content-sha256'' = ''x-amz-content-sha256''"
  by code_simp

lemmas toLowerCase_names = toLowerCase_X_Custom toLowerCase_Content_Type toLowerCase_host
  toLowerCase_x_amz_date toLowerCase_x_amz_content_sha256

text \<open>The one header object that \<open>makeRequest\<close> passes comes out sorted.\<close>

lemma signedHeaderNames_makeRequest:
  "signedHeaderNames (injectHeaders cr nowIso this
      [(''Content-Type'', ''application/x-www-form-urlencoded; charset=utf-8'')] payload)
     = [''content-type'', ''host'', ''x-amz-content-sha256'', ''x-amz-date'']"
  by (simp add: signedHeaderNames_def injectHeaders_def toLowerCase_names)

text \<open>
  C1. \<open>sign\<close> sorts the header names as they are written and lower-cases them afterwards.
  For the header object \<open>{'X-Custom': '1'}\<close> the capital \<open>X\<close> sorts before \<open>host\<close>, so the
  canonical headers and the signed-header list begin with \<open>x-custom\<close>: they are not the
  lower-cased names in sorted order. The layout of the canonical request is as claimed.
\<close>

theorem sign_mixed_case_headers_unsorted:
  "signedHeaderNames (injectHeaders cr nowIso this [(''X-Custom'', ''1'')] [])
     = [''x-custom'', ''host'', ''x-amz-content-sha256'', ''x-amz-date'']
   \<and> sort (map toLowerCase (map fst (injectHeaders cr nowIso this [(''X-Custom'', ''1'')] [])))
     = [''host'', ''x-amz-content-sha256'', ''x-amz-date'', ''x-custom'']
   \<and> \<not> sorted (signedHeaderNames (injectHeaders cr nowIso this [(''X-Custom'', ''1'')] []))
   \<and> canonicalRequestOf cr ''GET'' ''https://sns.us-east-1.amazonaws.com/?Action=Publish''
        (injectHeaders cr nowIso this [(''X-Custom'', ''1'')] []) []
     = ''GET'' @ nl @ ''/'' @ nl @ ''Action=Publish'' @ nl
       @ ''x-custom:1'' @ nl
       @ ''host:sns.'' @ region this @ ''.amazonaws.com'' @ nl
       @ ''x-amz-content-sha256:'' @ payloadHashOf cr [] @ nl
       @ ''x-amz-date:'' @ amzDateOf nowIso @ nl @ nl
       @ ''x-custom;host;x-amz-content-sha256;x-amz-date'' @ nl @ payloadHashOf cr []"
  by (simp add: canonicalRequestOf_def sortedHeadersOf_def signedHeadersOf_def
      signedHeaderNames_def injectHeaders_def getHeader_def templ_def queryOf_def
      toLowerCase_names)







section \<open>Properties of the VoIP classifiers\<close>

lemma hasRepeatedDigits_2065551234: "hasRepeatedDigits ''2065551234''"
  by (simp add: isDigit_def)

lemma hasRepeatedDigits_8005551234: "hasRepeatedDigits ''8005551234''"
  by (simp add: isDigit_def)

lemma hasSequentialDigits_2065551234: "hasSequentialDigits ''2065551234''"
  by (simp add: isDigit_def stepUp_def)

lemma tollFree_8005551234: "take 3 ''8005551234'' \<in> set voipAreaCodes"
  by (simp add: voipAreaCodes_def)

lemma patternHeuristics_2065551234: "patternHeuristics ''2065551234''"
  by (simp only: patternHeuristics_def hasRepeatedDigits_2065551234 if_True)

lemma patternHeuristics_8005551234: "patternHeuristics ''8005551234''"
  by (simp only: patternHeuristics_def hasRepeatedDigits_8005551234 if_True)

lemma heuristic_pattern_verdict:
  assumes "parse (Some phone) = Returns (Some pn)" and "isValid pn"
    and "metadataType \<noteq> ''full''" and "patternHeuristics (nationalNumber pn)"
  shows "isPhoneNumberVoipLibPhoneNumber parse gnt phone metadataType"
  using assms by (simp add: isPhoneNumberVoipLibPhoneNumber_def)

lemma heuristic_never_throws_on_unparsable:
  "parse (Some phone) = Throws e \<or> parse (Some phone) = Returns None \<Longrightarrow>
   \<not> isPhoneNumberVoipLibPhoneNumber parse gnt phone metadataType"
  by (auto simp: isPhoneNumberVoipLibPhoneNumber_def)

text \<open>
  C4, as stated, fails: with minimal metadata the classifier answers \<open>true\<close> for the
  national number \<open>2065551234\<close>. Its digits \<open>555\<close> match the repeated-digit rule (and
  \<open>1234\<close> the sequential rule).
\<close>

theorem heuristic_2065551234_is_voip:
  "isPhoneNumberVoipLibPhoneNumber exampleParse noNumberType ''+12065551234'' ''minimal''
     = True"
  by (simp add: isPhoneNumberVoipLibPhoneNumber_def exampleParse_def voipAreaCodes_def
      patternHeuristics_2065551234)

text \<open>
  C4, amended: with minimal metadata the local-heuristic classifier returns
  \<open>isVoip=true\<close> for a valid US number whose national number is \<open>8005551234\<close> (its
  leading three digits are in the reserved list) and also \<open>isVoip=true\<close> for a valid number
  whose national number is \<open>2065551234\<close> (it contains the run \<open>555\<close>, which the
  repeated-digit rule of the cascade matches).
\<close>

theorem heuristic_examples_both_voip:
  assumes "parse (Some phone1) = Returns (Some pn1)" and "isValid pn1"
    and "country pn1 = Some ''US''" and "nationalNumber pn1 = ''8005551234''"
    and "parse (Some phone2) = Returns (Some pn2)" and "isValid pn2"
    and "nationalNumber pn2 = ''2065551234''"
  shows "isPhoneNumberVoipLibPhoneNumber parse gnt phone1 ''minimal'' = True
       \<and> take 3 (nationalNumber pn1) \<in> set voipAreaCodes
       \<and> isPhoneNumberVoipLibPhoneNumber parse gnt phone2 ''minimal'' = True
       \<and> hasRepeatedDigits (nationalNumber pn2)"
proof -
  have "isPhoneNumberVoipLibPhoneNumber parse gnt phone1 ''minimal''"
    using assms(1,2,4) patternHeuristics_8005551234
    by (intro heuristic_pattern_verdict [of parse phone1 pn1]) simp_all
  moreover have "isPhoneNumberVoipLibPhoneNumber parse gnt phone2 ''minimal''"
    using assms(5,6,7) patternHeuristics_2065551234
    by (intro heuristic_pattern_verdict [of parse phone2 pn2]) simp_all
  ultimately show ?thesis
    using assms(4,7) tollFree_8005551234 hasRepeatedDigits_2065551234 by simp
qed

theorem heuristic_examples_both_voip_witness:
  "isPhoneNumberVoipLibPhoneNumber exampleParse noNumberType ''+18005551234'' ''minimal''
   \<and> isPhoneNumberVoipLibPhoneNumber exampleParse noNumberType ''+12065551234'' ''minimal''"
  using heuristic_examples_both_voip [of exampleParse "''+18005551234''"
      "\<lparr> country = Some ''US'', nationalNumber = ''8005551234'', isValid = True,
         isNonGeographic = False, formatE164 = ''+18005551234'' \<rparr>"
      "''+12065551234''"
      "\<lparr> country = Some ''US'', nationalNumber = ''2065551234'', isValid = True,
         isNonGeographic = False, formatE164 = ''+12065551234'' \<rparr>" noNumberType]
  by (simp add: exampleParse_def)

lemma getProp_Some_iff:
  "getProp v p = Inr (Some x) \<longleftrightarrow> (\<exists>kvs. v = Some (JObject kvs) \<and> map_of kvs p = Some x)"
  by (cases "(v, p)" rule: getProp.cases) auto

lemma getProp_Inr_truthy:
  assumes "getProp v p = Inr c" and "truthy c"
  shows "\<exists>kvs x. v = Some (JObject kvs) \<and> map_of kvs p = Some x \<and> c = Some x"
proof -
  from assms(2) obtain x where "c = Some x" by (cases c) auto
  with assms(1) show ?thesis by (auto simp: getProp_Some_iff)
qed

lemma callToLowerCase_Inr_iff:
  "callToLowerCase v = Inr s \<longleftrightarrow> (\<exists>t. v = Some (JString t) \<and> s = toLowerCase t)"
  by (cases v rule: callToLowerCase.cases) auto

lemma lowerOfPath_Inr_iff:
  "lowerOfPath (Some (JObject kvs)) a b = Inr s \<longleftrightarrow>
     (\<exists>okvs t. map_of kvs a = Some (JObject okvs) \<and> map_of okvs b = Some (JString t)
        \<and> s = toLowerCase t)"
  by (auto simp: lowerOfPath_def getProp_Some_iff callToLowerCase_Inr_iff
      split: sum.splits option.splits)

lemma isPhoneNumberVoip_no_reply:
  "\<not> isPhoneNumberVoip (LookupRejects e)"
  "\<not> isPhoneNumberVoip (LookupResponse False st parsed)"
  "\<not> isPhoneNumberVoip (LookupResponse ok st (Inl e))"
  by (simp_all add: isPhoneNumberVoip_def isPhoneNumberVoip_body_def)

lemma isPhoneNumberVoip_iff:
  "isPhoneNumberVoip r \<longleftrightarrow>
     (\<exists>st kvs ckvs nm. r = LookupResponse True st (Inr (Some (JObject kvs)))
        \<and> map_of kvs ''carrier'' = Some (JObject ckvs)
        \<and> map_of ckvs ''name'' = Some (JString nm)
        \<and> (str_includes (toLowerCase nm) ''bandwidth''
            \<or> (\<exists>ty. map_of ckvs ''type'' = Some (JString ty)
                 \<and> (toLowerCase ty = ''voip''
                     \<or> (\<exists>pkvs lt. map_of kvs ''portability'' = Some (JObject pkvs)
                           \<and> map_of pkvs ''line_type'' = Some (JString lt)
                           \<and> toLowerCase lt = ''mobile'')))))"
  (is "?L \<longleftrightarrow> ?R")
proof
  note defs = isPhoneNumberVoip_def isPhoneNumberVoip_body_def
  assume L: ?L
  then obtain st parsed where r: "r = LookupResponse True st parsed"
    by (cases r) (auto simp: defs split: if_splits)
  from L r obtain phoneData where p: "parsed = Inr phoneData" and t: "truthy phoneData"
    by (cases parsed) (auto simp: defs split: if_splits)
  from L r p t obtain carrier
    where c: "getProp phoneData ''carrier'' = Inr carrier" and tc: "truthy carrier"
    by (cases "getProp phoneData ''carrier''") (auto simp: defs split: if_splits)
  from getProp_Inr_truthy [OF c tc] obtain kvs
    where pd: "phoneData = Some (JObject kvs)" by auto
  from L r p t c tc obtain nm where n: "lowerOfPath phoneData ''carrier'' ''name'' = Inr nm"
    by (cases "lowerOfPath phoneData ''carrier'' ''name''") (auto simp: defs split: if_splits)
  from n [unfolded pd lowerOfPath_Inr_iff] obtain ckvs t0
    where ck: "map_of kvs ''carrier'' = Some (JObject ckvs)"
      and nm0: "map_of ckvs ''name'' = Some (JString t0)" and nmeq: "nm = toLowerCase t0"
    by auto
  show ?R
  proof (cases "str_includes nm ''bandwidth''")
    case True
    then show ?thesis using r p pd ck nm0 nmeq by auto
  next
    case False
    with L r p t c tc n obtain ty where ty: "lowerOfPath phoneData ''carrier'' ''type'' = Inr ty"
      by (cases "lowerOfPath phoneData ''carrier'' ''type''") (auto simp: defs split: if_splits)
    from ty [unfolded pd lowerOfPath_Inr_iff] ck obtain ty0
      where ty0: "map_of ckvs ''type'' = Some (JString ty0)" and tyeq: "ty = toLowerCase ty0"
      by auto
    show ?thesis
    proof (cases "ty = ''voip''")
      case True
      then show ?thesis using r p pd ck nm0 ty0 tyeq by auto
    next
      case nv: False
      with False L r p t c tc n ty obtain lt
        where lt: "lowerOfPath phoneData ''portability'' ''line_type'' = Inr lt"
          and m: "lt = ''mobile''"
        by (cases "lowerOfPath phoneData ''portability'' ''line_type''")
           (auto simp: defs split: if_splits)
      from lt [unfolded pd lowerOfPath_Inr_iff] obtain pkvs lt0
        where "map_of kvs ''portability'' = Some (JObject pkvs)"
          and "map_of pkvs ''line_type'' = Some (JString lt0)" and "lt = toLowerCase lt0"
        by auto
      then show ?thesis using r p pd ck nm0 ty0 m by auto
    qed
  qed
next
  assume ?R
  then obtain st kvs ckvs nm
    where r: "r = LookupResponse True st (Inr (Some (JObject kvs)))"
      and ck: "map_of kvs ''carrier'' = Some (JObject ckvs)"
      and nm: "map_of ckvs ''name'' = Some (JString nm)"
      and d: "str_includes (toLowerCase nm) ''bandwidth''
              \<or> (\<exists>ty. map_of ckvs ''type'' = Some (JString ty)
                   \<and> (toLowerCase ty = ''voip''
                       \<or> (\<exists>pkvs lt. map_of kvs ''portability'' = Some (JObject pkvs)
                             \<and> map_of pkvs ''line_type'' = Some (JString lt)
                             \<and> toLowerCase lt = ''mobile'')))"
    by blast
  from d show ?L
    using r ck nm
    by (auto simp: isPhoneNumberVoip_def isPhoneNumberVoip_body_def lowerOfPath_def)
qed

text \<open>
  C5. The external-lookup strategy answers \<open>false\<close> when the request fails (\<open>fetch\<close>
  rejects, or the status is not a success), when the body is not JSON, and when a field
  that the verdict reads is missing: it answers \<open>true\<close> only for a successful reply
  whose \<open>carrier.name\<close> is a string and either contains \<open>bandwidth\<close>, or is followed
  by a string \<open>carrier.type\<close> that either is \<open>voip\<close> or is followed by a string
  \<open>portability.line_type\<close> equal to \<open>mobile\<close> (case ignored throughout). The function
  has a plain boolean result: every exception of its body ends in the \<open>catch\<close> block.
\<close>

theorem isPhoneNumberVoip_fails_open:
  "\<not> isPhoneNumberVoip (LookupRejects e)
   \<and> \<not> isPhoneNumberVoip (LookupResponse False st parsed)
   \<and> \<not> isPhoneNumberVoip (LookupResponse ok st (Inl e))
   \<and> (isPhoneNumberVoip r \<longrightarrow>
        (\<exists>st kvs ckvs nm. r = LookupResponse True st (Inr (Some (JObject kvs)))
           \<and> map_of kvs ''carrier'' = Some (JObject ckvs)
           \<and> map_of ckvs ''name'' = Some (JString nm)
           \<and> (str_includes (toLowerCase nm) ''bandwidth''
               \<or> (\<exists>ty. map_of ckvs ''type'' = Some (JString ty)
                    \<and> (toLowerCase ty = ''voip''
                        \<or> (\<exists>pkvs lt. map_of kvs ''portability'' = Some (JObject pkvs)
                              \<and> map_of pkvs ''line_type'' = Some (JString lt)
                              \<and> toLowerCase lt = ''mobile''))))))"
  using isPhoneNumberVoip_no_reply isPhoneNumberVoip_iff [of r] by blast

lemma toLowerCase_Bandwidth: "toLowerCase ''Bandwidth'' = ''bandwidth''"
  by code_simp

lemma toLowerCase_Verizon: "toLowerCase ''Verizon'' = ''verizon''"
  by code_simp

lemma toLowerCase_landline: "toLowerCase ''landline'' = ''landline''"
  by code_simp

lemma isPhoneNumberVoip_bandwidthReply: "isPhoneNumberVoip bandwidthReply"
  by (simp add: isPhoneNumberVoip_def isPhoneNumberVoip_body_def bandwidthReply_def
      lowerOfPath_def toLowerCase_Bandwidth startsWith_def)

theorem isPhoneNumberVoip_fails_open_witness:
  "\<not> isPhoneNumberVoip (LookupRejects (JsError ''TypeError'' ''Failed to fetch''))
   \<and> \<not> isPhoneNumberVoip (LookupResponse False 503 (Inr None))
   \<and> \<not> isPhoneNumberVoip (LookupResponse True 503 (Inl (JsError ''TypeError'' ''Failed to fetch'')))
   \<and> isPhoneNumberVoip bandwidthReply
   \<and> (\<exists>st kvs ckvs nm. bandwidthReply = LookupResponse True st (Inr (Some (JObject kvs)))
         \<and> map_of kvs ''carrier'' = Some (JObject ckvs)
         \<and> map_of ckvs ''name'' = Some (JString nm))
   \<and> \<not> isPhoneNumberVoip noPortabilityReply"
proof -
  note inst = isPhoneNumberVoip_fails_open
    [of "JsError ''TypeError'' ''Failed to fetch''" 503 "Inr None" True]
  have a: "isPhoneNumberVoip bandwidthReply"
    by (rule isPhoneNumberVoip_bandwidthReply)
  have b: "\<exists>st kvs ckvs nm. bandwidthReply = LookupResponse True st (Inr (Some (JObject kvs)))
         \<and> map_of kvs ''carrier'' = Some (JObject ckvs)
         \<and> map_of ckvs ''name'' = Some (JString nm)"
    using inst [of bandwidthReply] a by blast
  have c: "\<not> isPhoneNumberVoip noPortabilityReply"
  proof
    assume "isPhoneNumberVoip noPortabilityReply"
    with inst [of noPortabilityReply] show False
      by (auto simp: noPortabilityReply_def toLowerCase_Verizon toLowerCase_landline
          startsWith_def)
  qed
  from inst [of bandwidthReply] a b c show ?thesis by blast
qed

section \<open>Properties of the orchestrator\<close>

lemma envDefault_Inr:
  "pb \<noteq> ProcessUndeclared \<or> v \<noteq> None \<Longrightarrow> \<exists>x. envDefault pb v key = Inr x"
  by (cases v; cases pb rule: process_binding.exhaust; auto simp: envDefault_def split: option.splits)

lemma checkVoip_verdict:
  "VoipVerdict b \<in> set (snd (checkVoip pf options p)) \<longleftrightarrow> b = fst (checkVoip pf options p)"
  by (auto simp: checkVoip_def Let_def)

lemma checkVoip_no_transport:
  "\<not> list_ex isTransportEvent (snd (checkVoip pf options p))"
  by (simp add: checkVoip_def Let_def)

lemma makeRequest_no_verdict:
  "VoipVerdict b \<notin> set (snd (makeRequest pf this action params))"
  by (simp add: makeRequest_def Let_def)

lemma dispatch_no_verdict:
  "VoipVerdict b \<notin> set (snd (dispatch pf options ak sk rg c p))"
  by (simp add: dispatch_def Let_def makeRequest_no_verdict)

lemma verifyPhone_try_voip:
  assumes "VoipVerdict True \<in> set (snd (verifyPhone_try pf options ak sk rg))"
  shows "fst (verifyPhone_try pf options ak sk rg) = Inr voipRejection
       \<and> \<not> list_ex isTransportEvent (snd (verifyPhone_try pf options ak sk rg))"
proof (cases "validated pf options")
  case (Inl e)
  with assms show ?thesis by (simp add: verifyPhone_try_def)
next
  case (Inr cp)
  obtain code0 fp where cp: "cp = (code0, fp)" by (cases cp)
  show ?thesis
  proof (cases "orDefault (opt_blockVoip options) False")
    case False
    with assms Inr cp show ?thesis
      by (simp add: verifyPhone_try_def Let_def dispatch_no_verdict)
  next
    case True
    with assms Inr cp have "fst (checkVoip pf options fp)"
      by (cases "fst (checkVoip pf options fp)")
         (simp_all add: verifyPhone_try_def Let_def dispatch_no_verdict checkVoip_verdict)
    with True Inr cp show ?thesis
      by (simp add: verifyPhone_try_def Let_def checkVoip_no_transport)
  qed
qed

lemma verifyPhone_try_blocked:
  assumes "validated pf options = Inr (code0, fp)" and "opt_blockVoip options = Some True"
    and "fst (checkVoip pf options fp)"
  shows "verifyPhone_try pf options ak sk rg = (Inr voipRejection, snd (checkVoip pf options fp))"
  using assms by (simp add: verifyPhone_try_def Let_def orDefault_def)

lemma verifyPhone_blocked:
  assumes "env_process pf \<noteq> ProcessUndeclared"
    and "validated pf options = Inr (code0, fp)" and "opt_blockVoip options = Some True"
    and "fst (checkVoip pf options fp)"
  shows "verifyPhone pf options = (Returns voipRejection, snd (checkVoip pf options fp))"
    and "VoipVerdict True \<in> set (snd (verifyPhone pf options))"
proof -
  from assms(1) obtain ak sk rg where
    "envDefault (env_process pf) (opt_accessKeyId options) ''AWS_ACCESS_KEY_ID'' = Inr ak"
    "envDefault (env_process pf) (opt_secretAccessKey options) ''AWS_SECRET_ACCESS_KEY'' = Inr sk"
    "envDefault (env_process pf) (opt_awsRegion options) ''AWS_REGION'' = Inr rg"
    using envDefault_Inr [of "env_process pf" "opt_accessKeyId options" "''AWS_ACCESS_KEY_ID''"]
      envDefault_Inr [of "env_process pf" "opt_secretAccessKey options" "''AWS_SECRET_ACCESS_KEY''"]
      envDefault_Inr [of "env_process pf" "opt_awsRegion options" "''AWS_REGION''"]
    by blast
  then show v: "verifyPhone pf options = (Returns voipRejection, snd (checkVoip pf options fp))"
    using verifyPhone_try_blocked [OF assms(2,3,4)]
    by (simp add: verifyPhone_def Let_def)
  show "VoipVerdict True \<in> set (snd (verifyPhone pf options))"
    using assms(4) checkVoip_verdict [of True pf options fp] by (simp add: v)
qed

text \<open>
  C6. Whenever the classifier has been called and has answered \<open>true\<close> (which happens
  only under \<open>blockVoip\<close>), \<open>verifyPhone\<close> returns the rejection
  \<open>{success: false, error: 'VoIP numbers are not allowed', details: ..., isVoip: true}\<close>,
  and the events of the call hold no construction of an SNS client, no signing and no
  publish request.
\<close>

theorem verifyPhone_voip_blocks_dispatch:
  assumes "VoipVerdict True \<in> set (snd (verifyPhone pf options))"
  shows "fst (verifyPhone pf options) = Returns voipRejection
       \<and> success voipRejection = False \<and> isVoip voipRejection = Some True
       \<and> error voipRejection = Some ''VoIP numbers are not allowed''
       \<and> \<not> list_ex isTransportEvent (snd (verifyPhone pf options))"
proof -
  from assms obtain ak sk rg
    where v: "verifyPhone pf options =
                (case fst (verifyPhone_try pf options ak sk rg) of
                   Inl e \<Rightarrow> Returns (caughtFailure pf e) | Inr r \<Rightarrow> Returns r,
                 snd (verifyPhone_try pf options ak sk rg))"
    by (auto simp: verifyPhone_def Let_def split: sum.splits)
  with assms have "VoipVerdict True \<in> set (snd (verifyPhone_try pf options ak sk rg))" by simp
  from verifyPhone_try_voip [OF this] v show ?thesis by (simp add: voipRejection_def)
qed

lemma validated_exampleVoipOptions:
  "validated pf exampleVoipOptions = Inr (''1234'', ''+15551234567'')"
  by (simp add: validated_def exampleVoipOptions_def exampleOptions_def orDefault_def
      formatPhoneNumberArg_def formatPhoneNumber_def isValidPhoneNumber_def
      isValidPhoneNumberBasic_def e164Regex_def isDigit_def isAlnum_def Let_def)

lemma checkVoip_exampleVoipOptions:
  "checkVoip examplePlatform exampleVoipOptions ''+15551234567''
     = (True, [LookupFetch ''https://www.sent.dm/api/phone-lookup?phone=+15551234567'',
               VoipVerdict True])"
  by (simp add: checkVoip_def exampleVoipOptions_def exampleOptions_def orDefault_def
      examplePlatform_def isPhoneNumberVoip_bandwidthReply)

lemma verifyPhone_exampleVoipOptions:
  "verifyPhone examplePlatform exampleVoipOptions
     = (Returns voipRejection,
        [LookupFetch ''https://www.sent.dm/api/phone-lookup?phone=+15551234567'',
         VoipVerdict True])"
proof -
  have o: "opt_accessKeyId exampleVoipOptions = None"
    "opt_secretAccessKey exampleVoipOptions = None" "opt_awsRegion exampleVoipOptions = None"
    "opt_blockVoip exampleVoipOptions = Some True"
    by (simp_all add: exampleVoipOptions_def exampleOptions_def)
  have e: "envDefault (env_process examplePlatform) None k = Inr None" for k
    by (simp add: envDefault_def examplePlatform_def)
  have t: "verifyPhone_try examplePlatform exampleVoipOptions None None None
             = (Inr voipRejection,
                [LookupFetch ''https://www.sent.dm/api/phone-lookup?phone=+15551234567'',
                 VoipVerdict True])"
    using verifyPhone_try_blocked [OF validated_exampleVoipOptions o(4), of examplePlatform]
    by (simp add: checkVoip_exampleVoipOptions)
  show ?thesis
    by (simp only: verifyPhone_def o e t Let_def sum.case fst_conv snd_conv)
qed

theorem verifyPhone_voip_blocks_dispatch_witness:
  "VoipVerdict True \<in> set (snd (verifyPhone examplePlatform exampleVoipOptions))
   \<and> fst (verifyPhone examplePlatform exampleVoipOptions) = Returns voipRejection
   \<and> \<not> list_ex isTransportEvent (snd (verifyPhone examplePlatform exampleVoipOptions))"
proof -
  have h: "VoipVerdict True \<in> set (snd (verifyPhone examplePlatform exampleVoipOptions))"
    by (simp add: verifyPhone_exampleVoipOptions)
  from verifyPhone_voip_blocks_dispatch [OF h] h show ?thesis by blast
qed

text \<open>What the \<open>try\<close> block yields, and what the \<open>catch\<close> block makes of it.\<close>

lemma makeRequest_error_nonempty:
  "fst (makeRequest pf this action params) = Inl e \<Longrightarrow> errMessage e \<noteq> []"
  by (auto simp: makeRequest_def Let_def split: sum.splits)

lemma dispatch_result:
  "fst (dispatch pf options ak sk rg c p) = Inl e \<Longrightarrow> errMessage e \<noteq> []"
  "fst (dispatch pf options ak sk rg c p) = Inr r \<Longrightarrow> success r"
  by (auto simp: dispatch_def Let_def split: sum.splits dest: makeRequest_error_nonempty)

lemma formatPhoneNumber_error_nonempty:
  "formatPhoneNumberArg v = Inl e \<Longrightarrow> errMessage e \<noteq> []"
  "formatPhoneNumberLibPhoneNumber parse v = Inl e \<Longrightarrow> errMessage e \<noteq> []"
  by (auto simp: formatPhoneNumberArg_def formatPhoneNumberLibPhoneNumber_def typeErrorReplace_def
      split: option.splits js_call.splits if_splits)

lemma validated_error_nonempty:
  "validated pf options = Inl e \<Longrightarrow> errMessage e \<noteq> []"
  by (auto simp: validated_def Let_def split: option.splits if_splits sum.splits
      dest: formatPhoneNumber_error_nonempty)

lemma verifyPhone_try_result:
  "fst (verifyPhone_try pf options ak sk rg) = Inl e \<Longrightarrow> errMessage e \<noteq> []"
  "fst (verifyPhone_try pf options ak sk rg) = Inr r \<Longrightarrow> \<not> success r \<Longrightarrow> r = voipRejection"
  by (auto simp: verifyPhone_try_def Let_def
      split: if_splits sum.splits prod.splits dest: dispatch_result validated_error_nonempty)

lemma verifyPhone_returns:
  assumes "verifyPhone pf options =
                (case fst (verifyPhone_try pf options ak sk rg) of
                   Inl e \<Rightarrow> Returns (caughtFailure pf e) | Inr r \<Rightarrow> Returns r,
                 snd (verifyPhone_try pf options ak sk rg))"
  shows "\<exists>r. fst (verifyPhone pf options) = Returns r
           \<and> (\<not> success r \<longrightarrow> (\<exists>m. error r = Some m \<and> m \<noteq> []))"
proof (cases "fst (verifyPhone_try pf options ak sk rg)")
  case (Inl e)
  with assms verifyPhone_try_result(1) [OF Inl] show ?thesis
    by (simp add: caughtFailure_def)
next
  case (Inr r)
  with assms verifyPhone_try_result(2) [OF Inr] show ?thesis
    by (auto simp: voipRejection_def)
qed

text \<open>
  Where the global \<open>process\<close> is declared, or the options supply the two credentials and
  the region, every call returns a result, and a result without success has a non-empty
  \<open>error\<close>.
\<close>

lemma verifyPhone_catches:
  assumes "env_process pf \<noteq> ProcessUndeclared
           \<or> (opt_accessKeyId options \<noteq> None \<and> opt_secretAccessKey options \<noteq> None
               \<and> opt_awsRegion options \<noteq> None)"
  shows "\<exists>r. fst (verifyPhone pf options) = Returns r
           \<and> (\<not> success r \<longrightarrow> (\<exists>m. error r = Some m \<and> m \<noteq> []))"
proof -
  from assms obtain ak sk rg where
    "envDefault (env_process pf) (opt_accessKeyId options) ''AWS_ACCESS_KEY_ID'' = Inr ak"
    "envDefault (env_process pf) (opt_secretAccessKey options) ''AWS_SECRET_ACCESS_KEY'' = Inr sk"
    "envDefault (env_process pf) (opt_awsRegion options) ''AWS_REGION'' = Inr rg"
    using envDefault_Inr [of "env_process pf" "opt_accessKeyId options" "''AWS_ACCESS_KEY_ID''"]
      envDefault_Inr [of "env_process pf" "opt_secretAccessKey options" "''AWS_SECRET_ACCESS_KEY''"]
      envDefault_Inr [of "env_process pf" "opt_awsRegion options" "''AWS_REGION''"]
    by blast
  then have "verifyPhone pf options =
                (case fst (verifyPhone_try pf options ak sk rg) of
                   Inl e \<Rightarrow> Returns (caughtFailure pf e) | Inr r \<Rightarrow> Returns r,
                 snd (verifyPhone_try pf options ak sk rg))"
    by (simp add: verifyPhone_def Let_def)
  then show ?thesis by (rule verifyPhone_returns)
qed

text \<open>
  C9. The destructuring defaults \<open>process?.env?.AWS_...\<close> are evaluated before the
  \<open>try\<close> block is entered. In a runtime without a global \<open>process\<close> (a browser, a
  worker), for options that leave out a credential or the region, the identifier cannot
  be resolved: the \<open>ReferenceError\<close> is outside every \<open>catch\<close> and reaches the caller,
  and no result is returned.
\<close>

theorem verifyPhone_escapes_without_process:
  "verifyPhone (pf \<lparr> env_process := ProcessUndeclared \<rparr>) exampleOptions
     = (Throws (JsError ''ReferenceError'' ''process is not defined''), [])"
  by (simp add: verifyPhone_def envDefault_def exampleOptions_def)

text \<open>
  No branch of \<open>verifyPhone\<close> looks at the credentials: once the code and the number have
  passed validation and the number is not blocked, the publish request is sent, also with
  both credentials absent.
\<close>

lemma verifyPhone_try_sends_without_credentials:
  assumes "validated pf options = Inr (code0, fp)"
    and "orDefault (opt_blockVoip options) False = False"
  shows "\<exists>url hdrs. PublishFetch url hdrs \<in> set (snd (verifyPhone_try pf options None None rg))
           \<and> map_of hdrs ''authorization''
               = Some (''AWS4-HMAC-SHA256 Credential=undefined/''
                       @ credentialScopeOf (clock_iso pf) (newSNSClient None None rg)
                       @ '', SignedHeaders=content-type;host;x-amz-content-sha256;x-amz-date''
                       @ '', Signature=''
                       @ signatureOf (web_crypto pf) (clock_iso pf) (newSNSClient None None rg)
                           (stringToSignOf (web_crypto pf) (clock_iso pf) (newSNSClient None None rg)
                              (canonicalRequestOf (web_crypto pf) ''GET'' url
                                 (injectHeaders (web_crypto pf) (clock_iso pf)
                                    (newSNSClient None None rg)
                                    [(''Content-Type'',
                                      ''application/x-www-form-urlencoded; charset=utf-8'')] [])
                                 [])))"
proof -
  have a: "accessKeyId (newSNSClient None None rg) = None"
    by (simp add: newSNSClient_def Let_def)
  show ?thesis
    using assms
    by (simp add: verifyPhone_try_def dispatch_def makeRequest_def Let_def sign_authorization a
        templ_def signedHeadersOf_def signedHeaderNames_makeRequest)
qed

lemma signatureOf_without_secret:
  "secretAccessKey this = None \<Longrightarrow>
   signatureOf cr nowIso this stringToSign
     = arrayBufferToHex (hmacSha256 cr
         (signingKeySpec cr ''undefined'' (dateStampOf nowIso) (region this))
         (stringToUint8Array stringToSign))"
  by (simp add: signatureOf_def signingKeySpec_def templ_def Let_def)

lemma validated_exampleOptions:
  "validated pf exampleOptions = Inr (''1234'', ''+12065551234'')"
  by (simp add: validated_def exampleOptions_def orDefault_def formatPhoneNumberArg_def
      formatPhoneNumber_def isValidPhoneNumber_def isValidPhoneNumberBasic_def e164Regex_def
      isDigit_def isAlnum_def Let_def)

lemma makeRequest_exampleParams:
  "makeRequest examplePlatform clientWithoutCredentials ''Publish'' (drop 2 exampleParams)
     = (Inr (MessageIdResp ''abc123''),
        [SignCall (''https://sns.us-east-1.amazonaws.com/?''
                     @ url_searchParams examplePlatform exampleParams),
         PublishFetch (''https://sns.us-east-1.amazonaws.com/?''
                         @ url_searchParams examplePlatform exampleParams)
           (sign exampleCrypto ''2026-11-03T13:41:05.123Z'' clientWithoutCredentials ''GET''
              (''https://sns.us-east-1.amazonaws.com/?''
                 @ url_searchParams examplePlatform exampleParams)
              [(''Content-Type'', ''application/x-www-form-urlencoded; charset=utf-8'')] [])])"
  unfolding makeRequest_def Let_def
  by (simp add: parseXMLResponse_messageId_example examplePlatform_def exampleParams_def
      clientWithoutCredentials_def)

lemma dispatch_exampleOptions:
  "dispatch examplePlatform exampleOptions None None None ''1234'' ''+12065551234''
     = (Inr \<lparr> success = True, message = Some ''Verification code sent successfully'',
              messageId = Some ''abc123'', code = Some ''1234'',
              phoneNumber = Some ''+12065551234'', expiresIn = Some 600,
              error = None, details = None, isVoip = None \<rparr>,
        ClientConstructed clientWithoutCredentials
          # snd (makeRequest examplePlatform clientWithoutCredentials ''Publish''
                 (drop 2 exampleParams)))"
proof -
  have c: "newSNSClient None None None = clientWithoutCredentials"
    by (simp add: newSNSClient_def clientWithoutCredentials_def)
  have ps: "[(''Message'', replaceFirst ''{code}'' ''1234''
                (orDefault (opt_messageTemplate exampleOptions)
                   ''Your verification code is: {code}.'')),
             (''PhoneNumber'', ''+12065551234''),
             (''MessageAttributes.entry.1.Name'', ''AWS.SNS.SMS.SenderID''),
             (''MessageAttributes.entry.1.Value.DataType'', ''String''),
             (''MessageAttributes.entry.1.Value.StringValue'',
                orDefault (opt_senderId exampleOptions) ''Verify''),
             (''MessageAttributes.entry.2.Name'', ''AWS.SNS.SMS.SMSType''),
             (''MessageAttributes.entry.2.Value.DataType'', ''String''),
             (''MessageAttributes.entry.2.Value.StringValue'',
                orDefault (opt_smsType exampleOptions) ''Transactional'')]
            = drop 2 exampleParams"
    by (simp add: exampleOptions_def orDefault_def exampleParams_def startsWith_def)
  show ?thesis
    unfolding dispatch_def Let_def c ps by (simp add: makeRequest_exampleParams)
qed

lemma verifyPhone_exampleOptions:
  "verifyPhone examplePlatform exampleOptions =
     (Returns \<lparr> success = True, message = Some ''Verification code sent successfully'',
                messageId = Some ''abc123'', code = Some ''1234'',
                phoneNumber = Some ''+12065551234'', expiresIn = Some 600,
                error = None, details = None, isVoip = None \<rparr>,
      [ClientConstructed clientWithoutCredentials,
       SignCall (''https://sns.us-east-1.amazonaws.com/?''
                   @ url_searchParams examplePlatform exampleParams),
       PublishFetch (''https://sns.us-east-1.amazonaws.com/?''
                       @ url_searchParams examplePlatform exampleParams)
         (sign exampleCrypto ''2026-11-03T13:41:05.123Z'' clientWithoutCredentials ''GET''
            (''https://sns.us-east-1.amazonaws.com/?''
               @ url_searchParams examplePlatform exampleParams)
            [(''Content-Type'', ''application/x-www-form-urlencoded; charset=utf-8'')] [])])"
proof -
  have e: "envDefault (env_process examplePlatform) None k = Inr None" for k
    by (simp add: envDefault_def examplePlatform_def)
  have o: "opt_accessKeyId exampleOptions = None" "opt_secretAccessKey exampleOptions = None"
    "opt_awsRegion exampleOptions = None"
    "orDefault (opt_blockVoip exampleOptions) False = False"
    by (simp_all add: exampleOptions_def orDefault_def)
  have t: "verifyPhone_try examplePlatform exampleOptions None None None
             = (fst (dispatch examplePlatform exampleOptions None None None
                       ''1234'' ''+12065551234''),
                snd (dispatch examplePlatform exampleOptions None None None
                       ''1234'' ''+12065551234''))"
    by (simp add: verifyPhone_try_def validated_exampleOptions o)
  show ?thesis
    by (simp only: verifyPhone_def o e t dispatch_exampleOptions makeRequest_exampleParams
        Let_def sum.case fst_conv snd_conv)
qed

lemma sign_authorization_without_credentials:
  "map_of (sign exampleCrypto ''2026-11-03T13:41:05.123Z'' clientWithoutCredentials ''GET'' url
             [(''Content-Type'', ''application/x-www-form-urlencoded; charset=utf-8'')] [])
          ''authorization''
   = Some (''AWS4-HMAC-SHA256 Credential=undefined/20261103/us-east-1/sns/aws4_request, SignedHeaders=content-type;host;x-amz-content-sha256;x-amz-date, Signature=''
      @ arrayBufferToHex (hmacSha256 exampleCrypto
           (signingKeySpec exampleCrypto ''undefined'' ''20261103'' ''us-east-1'')
           (stringToUint8Array
              (stringToSignOf exampleCrypto ''2026-11-03T13:41:05.123Z'' clientWithoutCredentials
                 (canonicalRequestOf exampleCrypto ''GET'' url
                    (injectHeaders exampleCrypto ''2026-11-03T13:41:05.123Z''
                       clientWithoutCredentials
                       [(''Content-Type'', ''application/x-www-form-urlencoded; charset=utf-8'')]
                       [])
                    [])))))"
proof -
  have ds: "dateStampOf ''2026-11-03T13:41:05.123Z'' = ''20261103''"
    by (simp add: dateStampOf_def amzDateOf_def isDigit_def)
  show ?thesis
    unfolding sign_authorization signedHeadersOf_def signedHeaderNames_makeRequest
    by (simp add: templ_def signatureOf_def signingKeySpec_def clientWithoutCredentials_def
        credentialScopeOf_def ds)
qed

text \<open>
  C10. With no access key id and no secret key in the options or in the environment,
  \<open>verifyPhone\<close> reports no failure of its own: it constructs the client with both
  credentials \<open>undefined\<close>, signs the request with the key \<open>AWS4undefined\<close> and the
  credential \<open>undefined/...\<close>, sends it, and returns the provider's answer, here a
  success.
\<close>

theorem verifyPhone_missing_credentials_dispatched:
  "envDefault (env_process examplePlatform) (opt_accessKeyId exampleOptions)
       ''AWS_ACCESS_KEY_ID'' = Inr None
   \<and> envDefault (env_process examplePlatform) (opt_secretAccessKey exampleOptions)
       ''AWS_SECRET_ACCESS_KEY'' = Inr None
   \<and> fst (verifyPhone examplePlatform exampleOptions)
       = Returns \<lparr> success = True, message = Some ''Verification code sent successfully'',
                   messageId = Some ''abc123'', code = Some ''1234'',
                   phoneNumber = Some ''+12065551234'', expiresIn = Some 600,
                   error = None, details = None, isVoip = None \<rparr>
   \<and> snd (verifyPhone examplePlatform exampleOptions)
       = [ClientConstructed clientWithoutCredentials,
          SignCall (''https://sns.us-east-1.amazonaws.com/?''
                      @ url_searchParams examplePlatform exampleParams),
          PublishFetch (''https://sns.us-east-1.amazonaws.com/?''
                          @ url_searchParams examplePlatform exampleParams)
            (sign exampleCrypto ''2026-11-03T13:41:05.123Z'' clientWithoutCredentials ''GET''
               (''https://sns.us-east-1.amazonaws.com/?''
                  @ url_searchParams examplePlatform exampleParams)
               [(''Content-Type'', ''application/x-www-form-urlencoded; charset=utf-8'')] [])]
   \<and> accessKeyId clientWithoutCredentials = None
   \<and> secretAccessKey clientWithoutCredentials = None
   \<and> map_of (sign exampleCrypto ''2026-11-03T13:41:05.123Z'' clientWithoutCredentials ''GET''
               (''https://sns.us-east-1.amazonaws.com/?''
                  @ url_searchParams examplePlatform exampleParams)
               [(''Content-Type'', ''application/x-www-form-urlencoded; charset=utf-8'')] [])
             ''authorization''
       = Some (''AWS4-HMAC-SHA256 Credential=undefined/20261103/us-east-1/sns/aws4_request, SignedHeaders=content-type;host;x-amz-content-sha256;x-amz-date, Signature=''
          @ arrayBufferToHex (hmacSha256 exampleCrypto
               (signingKeySpec exampleCrypto ''undefined'' ''20261103'' ''us-east-1'')
               (stringToUint8Array
                  (stringToSignOf exampleCrypto ''2026-11-03T13:41:05.123Z''
                     clientWithoutCredentials
                     (canonicalRequestOf exampleCrypto ''GET''
                        (''https://sns.us-east-1.amazonaws.com/?''
                           @ url_searchParams examplePlatform exampleParams)
                        (injectHeaders exampleCrypto ''2026-11-03T13:41:05.123Z''
                           clientWithoutCredentials
                           [(''Content-Type'',
                             ''application/x-www-form-urlencoded; charset=utf-8'')]
                           [])
                        [])))))"
proof -
  have e: "envDefault (env_process examplePlatform) (opt_accessKeyId exampleOptions)
             ''AWS_ACCESS_KEY_ID'' = Inr None"
    "envDefault (env_process examplePlatform) (opt_secretAccessKey exampleOptions)
             ''AWS_SECRET_ACCESS_KEY'' = Inr None"
    by (simp_all add: envDefault_def examplePlatform_def exampleOptions_def)
  have c: "accessKeyId clientWithoutCredentials = None"
    "secretAccessKey clientWithoutCredentials = None"
    by (simp_all add: clientWithoutCredentials_def)
  show ?thesis
    unfolding verifyPhone_exampleOptions fst_conv snd_conv
    using e c sign_authorization_without_credentials by blast
qed

end
